theory Spec2Isabelle
  imports Main
begin

section \<open>JavaScript values and the \<open>isAppError\<close> type guard\<close>

text \<open>
  The guard in \<^verbatim>\<open>server/src/utils/isAppError.ts\<close> receives a value of type
  \<^verbatim>\<open>unknown\<close>, so the model needs the dynamic values of JavaScript. An object (and a
  function, which is a callable object) carries the names of the constructors on its
  prototype chain, which is what \<^verbatim>\<open>instanceof\<close> inspects, and the properties reachable
  from it, own or inherited, which is what the \<^verbatim>\<open>in\<close> operator inspects.
\<close>

datatype js_value =
    JsUndefined
  | JsNull
  | JsBoolean bool
  | JsNumber int
  | JsString string
  | JsFunction "string list" "(string \<times> js_value) list"
  | JsObject "string list" "(string \<times> js_value) list"

text \<open>An error object that is not an \<^verbatim>\<open>AppError\<close>: its name and its message.\<close>

type_synonym js_error = "string \<times> string"

fun typeof :: "js_value \<Rightarrow> string" where
  "typeof JsUndefined = ''undefined''"
| "typeof JsNull = ''object''"
| "typeof (JsBoolean b) = ''boolean''"
| "typeof (JsNumber n) = ''number''"
| "typeof (JsString s) = ''string''"
| "typeof (JsFunction chain props) = ''function''"
| "typeof (JsObject chain props) = ''object''"

fun instanceof :: "js_value \<Rightarrow> string \<Rightarrow> bool" where
  "instanceof (JsObject chain props) c = (c \<in> set chain)"
| "instanceof (JsFunction chain props) c = (c \<in> set chain)"
| "instanceof v c = False"

text \<open>
  \<^verbatim>\<open>key in v\<close> raises a TypeError when \<open>v\<close> is a primitive; the guard only reaches it
  behind the \<^verbatim>\<open>typeof\<close> and null tests, and the model keeps the raise as a branch.
\<close>

fun js_in :: "string \<Rightarrow> js_value \<Rightarrow> js_error + bool" where
  "js_in k (JsObject chain props) = Inr (k \<in> set (map fst props))"
| "js_in k (JsFunction chain props) = Inr (k \<in> set (map fst props))"
| "js_in k v = Inl (''TypeError'', ''Cannot use in operator to search for a key in a primitive'')"

text \<open>
  \<^verbatim>\<open>
  return (
    err instanceof AppError ||
    (typeof err === "object" && err !== null && "message" in err && "statusCode" in err)
  );
  \<close>
  with the short-circuit order of \<^verbatim>\<open>||\<close> and \<^verbatim>\<open>&&\<close> written out.
\<close>

definition isAppError :: "js_value \<Rightarrow> js_error + bool" where
  "isAppError err =
     (if instanceof err ''AppError'' then Inr True
      else if typeof err = ''object'' then
        (if err \<noteq> JsNull then
           (case js_in ''message'' err of
              Inl e \<Rightarrow> Inl e
            | Inr b \<Rightarrow> if b then js_in ''statusCode'' err else Inr False)
         else Inr False)
      else Inr False)"

text \<open>
  The reading of the guard in words: an instance of \<^verbatim>\<open>AppError\<close>, or a non-null object
  (a value whose \<^verbatim>\<open>typeof\<close> is object, so not a function) that has both properties.
\<close>

fun is_AppError_instance :: "js_value \<Rightarrow> bool" where
  "is_AppError_instance (JsObject chain props) = (''AppError'' \<in> set chain)"
| "is_AppError_instance (JsFunction chain props) = (''AppError'' \<in> set chain)"
| "is_AppError_instance v = False"

fun is_non_null_object :: "js_value \<Rightarrow> bool" where
  "is_non_null_object (JsObject chain props) = True"
| "is_non_null_object v = False"

fun has_property :: "string \<Rightarrow> js_value \<Rightarrow> bool" where
  "has_property k (JsObject chain props) = (k \<in> fst ` set props)"
| "has_property k (JsFunction chain props) = (k \<in> fst ` set props)"
| "has_property k v = False"

section \<open>The auth service\<close>

text \<open>
  The service of \<^verbatim>\<open>src/unnamed/part_001\<close>: \<open>loginUserService\<close>,
  \<open>registerUserService\<close> and \<open>refreshTokenService\<close>. Record fields keep the
  source's field names behind a short prefix naming the record (\<open>u_\<close> for a row of
  the users table, \<open>in_\<close> for the registration input, \<open>p_\<close> for a token payload),
  since the three share \<open>email\<close> and \<open>role\<close>.
\<close>

subsection \<open>Thrown values\<close>

text \<open>
  Modelled from the spec: the class \<^verbatim>\<open>AppError\<close> (\<^verbatim>\<open>utils/AppError.ts\<close> is not among
  the sources). The service builds it as \<^verbatim>\<open>new AppError(message, statusCode)\<close> and the
  spec says that known errors carry an explicit status code and message.
\<close>

record AppError =
  message :: string
  statusCode :: nat

text \<open>
  What a \<^verbatim>\<open>throw\<close> carries: an \<^verbatim>\<open>AppError\<close>, or some other error object (a plain
  \<^verbatim>\<open>Error\<close>, or one raised by a library).
\<close>

datatype thrown = ThrownAppError AppError | ThrownError js_error

fun instanceof_AppError :: "thrown \<Rightarrow> bool" where
  "instanceof_AppError (ThrownAppError a) = True"
| "instanceof_AppError (ThrownError e) = False"

subsection \<open>The users table\<close>

text \<open>
  A row of the table \<^verbatim>\<open>users\<close>, with the columns the queries and the projections name.
  A nullable column is an \<open>option\<close> (\<open>None\<close> is SQL NULL); \<open>u_last_login\<close> is a
  timestamp.
\<close>

record User =
  u_id :: nat
  u_email :: string
  u_password :: string
  u_first_name :: string
  u_last_name :: string
  u_date_of_birth :: "string option"
  u_photo_url :: "string option"
  u_role :: "string option"
  u_last_login :: "nat option"

text \<open>
  The store reached through \<^verbatim>\<open>pool\<close>: the rows in table order, and the sequence that
  generates the \<^verbatim>\<open>id\<close> of the next inserted row. Every query is assumed to reach the
  database; a lost connection is outside the model.
\<close>

record Store =
  rows :: "User list"
  next_id :: nat

text \<open>\<^verbatim>\<open>SELECT * FROM users WHERE email = $1\<close> (and \<^verbatim>\<open>SELECT id ...\<close>): the matching rows.\<close>

definition select_by_email :: "Store \<Rightarrow> string \<Rightarrow> User list" where
  "select_by_email db e = filter (\<lambda>u. u_email u = e) (rows db)"

text \<open>
  \<^verbatim>\<open>SELECT * FROM users WHERE id = $1\<close>. The parameter comes out of a decoded token and
  may be missing; a missing parameter is sent as NULL, which equals no id.
\<close>

definition select_by_id :: "Store \<Rightarrow> nat option \<Rightarrow> User list" where
  "select_by_id db i =
     (case i of None \<Rightarrow> [] | Some n \<Rightarrow> filter (\<lambda>u. u_id u = n) (rows db))"

text \<open>\<^verbatim>\<open>UPDATE users SET last_login = NOW() WHERE id = $1\<close>, at the time \<open>now\<close>.\<close>

definition update_last_login :: "Store \<Rightarrow> nat \<Rightarrow> nat \<Rightarrow> Store" where
  "update_last_login db i now =
     db\<lparr>rows := map (\<lambda>u. if u_id u = i then u\<lparr>u_last_login := Some now\<rparr> else u) (rows db)\<rparr>"

text \<open>
  \<^verbatim>\<open>INSERT INTO users (email, password, first_name, last_name, date_of_birth, photo_url)
  VALUES ($1, ..., $6) RETURNING id\<close>: a new row at the end of the table, and its id.

  Modelled from the spec: the columns the statement does not name take the defaults of
  the table, whose schema is not among the sources. The spec gives \<open>role\<close> the default
  "user" and \<open>last_login\<close> is set on login only.
\<close>

definition insert_user ::
  "Store \<Rightarrow> string \<Rightarrow> string \<Rightarrow> string \<Rightarrow> string \<Rightarrow> string option \<Rightarrow> string option
     \<Rightarrow> nat \<times> Store" where
  "insert_user db e pw fname lname dob photo =
     (next_id db,
      \<lparr>rows = rows db @
         [\<lparr>u_id = next_id db, u_email = e, u_password = pw, u_first_name = fname,
           u_last_name = lname, u_date_of_birth = dob, u_photo_url = photo,
           u_role = Some ''user'', u_last_login = None\<rparr>],
       next_id = Suc (next_id db)\<rparr>)"

text \<open>\<^verbatim>\<open>result.rows[0]\<close>: \<^verbatim>\<open>undefined\<close> (here \<open>None\<close>) when no row came back.\<close>

fun first_row :: "'a list \<Rightarrow> 'a option" where
  "first_row [] = None"
| "first_row (x # xs) = Some x"

subsection \<open>Truthiness of optional strings\<close>

text \<open>
  An optional string is \<open>None\<close> for \<^verbatim>\<open>undefined\<close> or \<^verbatim>\<open>null\<close>. It is falsy when it is
  absent or empty: \<^verbatim>\<open>!s\<close>, \<^verbatim>\<open>s || "user"\<close> and \<^verbatim>\<open>s || null\<close>.
\<close>

definition truthy :: "string option \<Rightarrow> bool" where
  "truthy s = (case s of None \<Rightarrow> False | Some x \<Rightarrow> x \<noteq> [])"

definition or_else :: "string option \<Rightarrow> string \<Rightarrow> string" where
  "or_else s d = (case s of None \<Rightarrow> d | Some x \<Rightarrow> if x = [] then d else x)"

definition or_null :: "string option \<Rightarrow> string option" where
  "or_null s = (case s of None \<Rightarrow> None | Some x \<Rightarrow> if x = [] then None else Some x)"

text \<open>A nullable column read into an object, and an optional input copied into one.\<close>

definition js_of_column :: "string option \<Rightarrow> js_value" where
  "js_of_column c = (case c of None \<Rightarrow> JsNull | Some x \<Rightarrow> JsString x)"

definition js_of_optional :: "string option \<Rightarrow> js_value" where
  "js_of_optional c = (case c of None \<Rightarrow> JsUndefined | Some x \<Rightarrow> JsString x)"

subsection \<open>Configuration and libraries\<close>

text \<open>
  The four constants imported from \<^verbatim>\<open>config/env.ts\<close>, which is not among the sources:
  they are parameters of the model. Each is read from the process environment and may
  be undefined, which is why \<open>loginUserService\<close> tests \<^verbatim>\<open>!JWT_SECRET_ACCESS\<close>.
\<close>

record Env =
  JWT_SECRET_REFRESH :: "string option"
  JWT_SECRET_ACCESS :: "string option"
  JWT_EXPIRES_IN_SHORT :: "string option"
  JWT_EXPIRES_IN_LONG :: "string option"

text \<open>The object handed to \<^verbatim>\<open>jwt.sign\<close>; \<open>p_role\<close> is \<open>None\<close> when it is \<^verbatim>\<open>undefined\<close>.\<close>

record TokenPayload =
  p_userId :: nat
  p_email :: string
  p_role :: "string option"

text \<open>The part of a decoded token that the service reads: \<^verbatim>\<open>payload.userId\<close>.\<close>

record JwtPayload =
  jp_userId :: "nat option"

text \<open>
  The two third-party libraries, \<^verbatim>\<open>bcrypt\<close> and \<^verbatim>\<open>jsonwebtoken\<close>, are parameters too:
  the theorems hold for whatever they compute. \<open>bcrypt_hash\<close> takes the plaintext and
  the cost factor and stands for the outcome of the call, salt included.
  \<open>jwt_sign\<close> takes the payload, the secret and the \<^verbatim>\<open>expiresIn\<close> option; it and
  \<open>jwt_verify\<close> (token, secret) either return or throw an error of the library's
  own, never an \<^verbatim>\<open>AppError\<close>.
\<close>

record Libs =
  bcrypt_hash :: "string \<Rightarrow> nat \<Rightarrow> string"
  bcrypt_compare :: "string \<Rightarrow> string \<Rightarrow> bool"
  jwt_sign :: "TokenPayload \<Rightarrow> string option \<Rightarrow> string option \<Rightarrow> js_error + string"
  jwt_verify :: "string \<Rightarrow> string option \<Rightarrow> js_error + JwtPayload"

text \<open>
  What the three operations return: the two tokens and the \<^verbatim>\<open>user\<close> object literal, kept
  as the list of its properties in the order written.
\<close>

record AuthResult =
  accessToken :: string
  refreshToken :: string
  user :: "(string \<times> js_value) list"

subsection \<open>\<open>loginUserService\<close>\<close>

text \<open>
  The body of the \<^verbatim>\<open>try\<close> block. It returns what was thrown or the result, together
  with the store as the statements executed so far left it. The single
  \<^verbatim>\<open>throw new AppError("Login Failed", 404)\<close> guarded by
  \<^verbatim>\<open>!user || !(await bcrypt.compare(password, user.password))\<close> appears once per
  disjunct.
\<close>

definition login_try ::
  "Libs \<Rightarrow> Env \<Rightarrow> nat \<Rightarrow> Store \<Rightarrow> string \<Rightarrow> string \<Rightarrow> (thrown + AuthResult) \<times> Store" where
  "login_try L env now db email password =
     (case first_row (select_by_email db email) of
        None \<Rightarrow> (Inl (ThrownAppError \<lparr>message = ''Login Failed'', statusCode = 404\<rparr>), db)
      | Some usr \<Rightarrow>
          if \<not> bcrypt_compare L password (u_password usr)
          then (Inl (ThrownAppError \<lparr>message = ''Login Failed'', statusCode = 404\<rparr>), db)
          else
            let db' = update_last_login db (u_id usr) now;
                payload = \<lparr>p_userId = u_id usr, p_email = u_email usr,
                           p_role = Some (or_else (u_role usr) ''user'')\<rparr>
            in if \<not> truthy (JWT_SECRET_ACCESS env)
               then (Inl (ThrownError (''Error'', ''JWT_SECRET_ACCESS is not defined'')), db')
               else
                 (case jwt_sign L payload (JWT_SECRET_ACCESS env) (JWT_EXPIRES_IN_SHORT env) of
                    Inl e \<Rightarrow> (Inl (ThrownError e), db')
                  | Inr access \<Rightarrow>
                      (case jwt_sign L payload (JWT_SECRET_REFRESH env) (JWT_EXPIRES_IN_LONG env) of
                         Inl e \<Rightarrow> (Inl (ThrownError e), db')
                       | Inr refresh \<Rightarrow>
                           (Inr \<lparr>accessToken = access, refreshToken = refresh,
                                 user =
                                   [(''id'', JsNumber (int (u_id usr))),
                                    (''email'', JsString (u_email usr)),
                                    (''first_name'', JsString (u_first_name usr)),
                                    (''last_name'', JsString (u_last_name usr)),
                                    (''date_of_birth'', js_of_column (u_date_of_birth usr)),
                                    (''photo_url'', js_of_column (u_photo_url usr)),
                                    (''role'', JsString (or_else (u_role usr) ''user''))]\<rparr>,
                            db'))))"

text \<open>The \<^verbatim>\<open>catch\<close> block: anything that is not an \<^verbatim>\<open>AppError\<close> is replaced.\<close>

definition login_catch :: "thrown \<Rightarrow> thrown" where
  "login_catch error =
     (if \<not> instanceof_AppError error
      then ThrownAppError \<lparr>message = ''Failed to log in user'', statusCode = 500\<rparr>
      else error)"

definition loginUserService ::
  "Libs \<Rightarrow> Env \<Rightarrow> nat \<Rightarrow> Store \<Rightarrow> string \<Rightarrow> string \<Rightarrow> (thrown + AuthResult) \<times> Store" where
  "loginUserService L env now db email password =
     (case login_try L env now db email password of
        (Inl error, db') \<Rightarrow> (Inl (login_catch error), db')
      | (Inr result, db') \<Rightarrow> (Inr result, db'))"

subsection \<open>\<open>registerUserService\<close>\<close>

record RegisterUserInput =
  in_email :: string
  in_password :: string
  in_first_name :: string
  in_last_name :: string
  in_date_of_birth :: "string option"
  in_photo_url :: "string option"
  in_role :: "string option"

definition register_try ::
  "Libs \<Rightarrow> Env \<Rightarrow> Store \<Rightarrow> RegisterUserInput \<Rightarrow> (thrown + AuthResult) \<times> Store" where
  "register_try L env db inp =
     (if length (select_by_email db (in_email inp)) > 0
      then (Inl (ThrownAppError \<lparr>message = ''Email already registered'', statusCode = 409\<rparr>), db)
      else
        let hashedPassword = bcrypt_hash L (in_password inp) 10;
            (new_id, db') =
              insert_user db (in_email inp) hashedPassword (in_first_name inp) (in_last_name inp)
                (or_null (in_date_of_birth inp)) (or_null (in_photo_url inp));
            payload = \<lparr>p_userId = new_id, p_email = in_email inp, p_role = in_role inp\<rparr>
        in (case jwt_sign L payload (JWT_SECRET_ACCESS env) (JWT_EXPIRES_IN_SHORT env) of
              Inl e \<Rightarrow> (Inl (ThrownError e), db')
            | Inr access \<Rightarrow>
                (case jwt_sign L payload (JWT_SECRET_REFRESH env) (JWT_EXPIRES_IN_LONG env) of
                   Inl e \<Rightarrow> (Inl (ThrownError e), db')
                 | Inr refresh \<Rightarrow>
                     (Inr \<lparr>accessToken = access, refreshToken = refresh,
                           user =
                             [(''id'', JsNumber (int new_id)),
                              (''email'', JsString (in_email inp)),
                              (''first_name'', JsString (in_first_name inp)),
                              (''last_name'', JsString (in_last_name inp)),
                              (''date_of_birth'', js_of_optional (in_date_of_birth inp)),
                              (''photo_url'', js_of_optional (in_photo_url inp))]\<rparr>,
                      db'))))"

definition register_catch :: "thrown \<Rightarrow> thrown" where
  "register_catch error =
     (if \<not> instanceof_AppError error
      then ThrownAppError \<lparr>message = ''Failed to register user'', statusCode = 500\<rparr>
      else error)"

definition registerUserService ::
  "Libs \<Rightarrow> Env \<Rightarrow> Store \<Rightarrow> RegisterUserInput \<Rightarrow> (thrown + AuthResult) \<times> Store" where
  "registerUserService L env db inp =
     (case register_try L env db inp of
        (Inl error, db') \<Rightarrow> (Inl (register_catch error), db')
      | (Inr result, db') \<Rightarrow> (Inr result, db'))"

subsection \<open>\<open>refreshTokenService\<close>\<close>

text \<open>The operation only reads the store, so no store is returned.\<close>

definition refresh_try :: "Libs \<Rightarrow> Env \<Rightarrow> Store \<Rightarrow> string \<Rightarrow> thrown + AuthResult" where
  "refresh_try L env db token =
     (case jwt_verify L token (JWT_SECRET_REFRESH env) of
        Inl e \<Rightarrow> Inl (ThrownError e)
      | Inr payload \<Rightarrow>
          (case first_row (select_by_id db (jp_userId payload)) of
             None \<Rightarrow> Inl (ThrownAppError \<lparr>message = ''Login Failed'', statusCode = 404\<rparr>)
           | Some usr \<Rightarrow>
               let newPayload = \<lparr>p_userId = u_id usr, p_email = u_email usr,
                                  p_role = Some (or_else (u_role usr) ''user'')\<rparr>
               in (case jwt_sign L newPayload (JWT_SECRET_ACCESS env) (JWT_EXPIRES_IN_LONG env) of
                     Inl e \<Rightarrow> Inl (ThrownError e)
                   | Inr newAccessToken \<Rightarrow>
                       (case jwt_sign L newPayload (JWT_SECRET_REFRESH env) (JWT_EXPIRES_IN_SHORT env) of
                          Inl e \<Rightarrow> Inl (ThrownError e)
                        | Inr newRefreshToken \<Rightarrow>
                            Inr \<lparr>accessToken = newAccessToken, refreshToken = newRefreshToken,
                                 user =
                                   [(''id'', JsNumber (int (u_id usr))),
                                    (''email'', JsString (u_email usr)),
                                    (''first_name'', JsString (u_first_name usr)),
                                    (''last_name'', JsString (u_last_name usr)),
                                    (''date_of_birth'', js_of_column (u_date_of_birth usr)),
                                    (''photo_url'', js_of_column (u_photo_url usr)),
                                    (''role'', JsString (or_else (u_role usr) ''user''))]\<rparr>))))"

definition refresh_catch :: "thrown \<Rightarrow> thrown" where
  "refresh_catch error =
     (if \<not> instanceof_AppError error
      then ThrownAppError \<lparr>message = ''Failed to refresh token'', statusCode = 500\<rparr>
      else error)"

definition refreshTokenService :: "Libs \<Rightarrow> Env \<Rightarrow> Store \<Rightarrow> string \<Rightarrow> thrown + AuthResult" where
  "refreshTokenService L env db token =
     (case refresh_try L env db token of
        Inl error \<Rightarrow> Inl (refresh_catch error)
      | Inr result \<Rightarrow> Inr result)"

subsection \<open>Reading a result\<close>

text \<open>The HTTP status a thrown value carries, if it is an \<^verbatim>\<open>AppError\<close>.\<close>

fun status_of :: "thrown + 'a \<Rightarrow> nat option" where
  "status_of (Inl (ThrownAppError a)) = Some (statusCode a)"
| "status_of (Inl (ThrownError e)) = None"
| "status_of (Inr r) = None"

text \<open>The table's constraint that no two rows share an email.\<close>

definition emails_unique :: "Store \<Rightarrow> bool" where
  "emails_unique db = distinct (map u_email (rows db))"

subsection \<open>A concrete configuration\<close>

text \<open>
  Stand-ins on which the model can be run: a hasher that prefixes the plaintext, a
  signer that writes secret, expiry and subject into the token and refuses a missing or
  empty secret and a missing expiry, and a verifier that knows one good refresh token
  and one expired one.
\<close>

definition demo_libs :: Libs where
  "demo_libs =
     \<lparr>bcrypt_hash = (\<lambda>p c. ''$2b$10$'' @ p),
      bcrypt_compare = (\<lambda>p h. h = ''$2b$10$'' @ p),
      jwt_sign = (\<lambda>p k x.
        case k of
          None \<Rightarrow> Inl (''Error'', ''secretOrPrivateKey must have a value'')
        | Some s \<Rightarrow>
            if s = [] then Inl (''Error'', ''secretOrPrivateKey must have a value'')
            else (case x of
                    None \<Rightarrow> Inl (''Error'', ''expiresIn should be a timespan'')
                  | Some d \<Rightarrow> Inr (s @ '':'' @ d @ '':'' @ p_email p))),
      jwt_verify = (\<lambda>t k.
        if k = Some ''rs'' \<and> t = ''rs:7d:a@x.com'' then Inr \<lparr>jp_userId = Some 1\<rparr>
        else if k = Some ''rs'' \<and> t = ''rs:0s:a@x.com''
        then Inl (''TokenExpiredError'', ''jwt expired'')
        else Inl (''JsonWebTokenError'', ''invalid signature''))\<rparr>"

definition demo_env :: Env where
  "demo_env =
     \<lparr>JWT_SECRET_REFRESH = Some ''rs'', JWT_SECRET_ACCESS = Some ''as'',
      JWT_EXPIRES_IN_SHORT = Some ''15m'', JWT_EXPIRES_IN_LONG = Some ''7d''\<rparr>"

definition alice :: User where
  "alice =
     \<lparr>u_id = 1, u_email = ''a@x.com'', u_password = ''$2b$10$pw123456'',
      u_first_name = ''A'', u_last_name = ''B'', u_date_of_birth = Some ''2000-01-01'',
      u_photo_url = None, u_role = Some ''admin'', u_last_login = None\<rparr>"

definition demo_db :: Store where
  "demo_db = \<lparr>rows = [alice], next_id = 2\<rparr>"

definition bob_input :: RegisterUserInput where
  "bob_input =
     \<lparr>in_email = ''b@x.com'', in_password = ''pw123456'', in_first_name = ''B'',
      in_last_name = ''C'', in_date_of_birth = Some ''2000-01-01'', in_photo_url = None,
      in_role = None\<rparr>"

section \<open>Theorems\<close>

subsection \<open>The type guard (C10)\<close>

text \<open>
  C10. For every value \<open>v\<close>, \<open>isAppError v\<close> returns (it never raises) and the result is
  true exactly when \<open>v\<close> is an instance of AppError or \<open>v\<close> is a non-null object with
  both a message and a statusCode property. In particular a plain object of that shape
  that is not an AppError instance is accepted.
\<close>

theorem isAppError_iff:
  "isAppError v =
     Inr (is_AppError_instance v \<or>
          (is_non_null_object v \<and> has_property ''message'' v \<and> has_property ''statusCode'' v))
   \<and> (''AppError'' \<notin> set chain \<longrightarrow> ''message'' \<in> fst ` set props \<longrightarrow>
        ''statusCode'' \<in> fst ` set props \<longrightarrow>
        isAppError (JsObject chain props) = Inr True)"
  by (cases v) (simp_all add: isAppError_def)

theorem isAppError_iff_witness:
  "''AppError'' \<notin> set [''Object'']
   \<and> ''message'' \<in> fst ` set [(''message'', JsString ''nope''), (''statusCode'', JsNumber 418)]
   \<and> ''statusCode'' \<in> fst ` set [(''message'', JsString ''nope''), (''statusCode'', JsNumber 418)]
   \<and> isAppError (JsObject [''Object''] [(''message'', JsString ''nope''), (''statusCode'', JsNumber 418)])
       = Inr True
   \<and> isAppError (JsFunction [''Function'', ''Object''] [(''message'', JsString ''nope''), (''statusCode'', JsNumber 418)])
       = Inr False"
  using isAppError_iff [of "JsFunction [''Function'', ''Object''] [(''message'', JsString ''nope''), (''statusCode'', JsNumber 418)]"
      "[''Object'']" "[(''message'', JsString ''nope''), (''statusCode'', JsNumber 418)]"]
  by simp

subsection \<open>Token expiries (C1)\<close>

text \<open>
  \<open>loginUserService\<close> and \<open>registerUserService\<close> sign the access token with the
  access secret and \<open>JWT_EXPIRES_IN_SHORT\<close>, and the refresh token with the refresh
  secret and \<open>JWT_EXPIRES_IN_LONG\<close>.
\<close>

lemma login_tokens_signed:
  assumes "loginUserService L env now db email password = (Inr r, db')"
  shows "\<exists>usr. first_row (select_by_email db email) = Some usr
     \<and> jwt_sign L \<lparr>p_userId = u_id usr, p_email = u_email usr, p_role = Some (or_else (u_role usr) ''user'')\<rparr>
          (JWT_SECRET_ACCESS env) (JWT_EXPIRES_IN_SHORT env) = Inr (accessToken r)
     \<and> jwt_sign L \<lparr>p_userId = u_id usr, p_email = u_email usr, p_role = Some (or_else (u_role usr) ''user'')\<rparr>
          (JWT_SECRET_REFRESH env) (JWT_EXPIRES_IN_LONG env) = Inr (refreshToken r)"
  using assms
  by (auto simp: loginUserService_def login_try_def Let_def
      split: option.splits if_splits sum.splits)

lemma register_tokens_signed:
  assumes "registerUserService L env db inp = (Inr r, db')"
  shows "jwt_sign L \<lparr>p_userId = next_id db, p_email = in_email inp, p_role = in_role inp\<rparr>
          (JWT_SECRET_ACCESS env) (JWT_EXPIRES_IN_SHORT env) = Inr (accessToken r)
     \<and> jwt_sign L \<lparr>p_userId = next_id db, p_email = in_email inp, p_role = in_role inp\<rparr>
          (JWT_SECRET_REFRESH env) (JWT_EXPIRES_IN_LONG env) = Inr (refreshToken r)"
  using assms
  by (auto simp: registerUserService_def register_try_def insert_user_def Let_def
      split: option.splits if_splits sum.splits)

text \<open>
  C1. Every token pair issued by login, register or refresh should carry an access token
  signed with the access secret and the short expiry and a refresh token signed with the
  refresh secret and the long expiry. \<open>refreshTokenService\<close> does not: every pair it
  issues has the access token signed with \<open>JWT_EXPIRES_IN_LONG\<close> and the refresh token
  signed with \<open>JWT_EXPIRES_IN_SHORT\<close>; the secrets are the right ones, the two expiries
  are swapped.
\<close>

theorem refresh_tokens_swapped:
  assumes "refreshTokenService L env db token = Inr r"
  shows "\<exists>payload usr. jwt_verify L token (JWT_SECRET_REFRESH env) = Inr payload
     \<and> first_row (select_by_id db (jp_userId payload)) = Some usr
     \<and> jwt_sign L \<lparr>p_userId = u_id usr, p_email = u_email usr, p_role = Some (or_else (u_role usr) ''user'')\<rparr>
          (JWT_SECRET_ACCESS env) (JWT_EXPIRES_IN_LONG env) = Inr (accessToken r)
     \<and> jwt_sign L \<lparr>p_userId = u_id usr, p_email = u_email usr, p_role = Some (or_else (u_role usr) ''user'')\<rparr>
          (JWT_SECRET_REFRESH env) (JWT_EXPIRES_IN_SHORT env) = Inr (refreshToken r)"
  using assms
  by (auto simp: refreshTokenService_def refresh_try_def Let_def
      split: option.splits if_splits sum.splits)

text \<open>
  A refresh of the token of user 1 with the expiries 15m and 7d: the new access token
  lives 7d and the new refresh token 15m, where signing with the short expiry would have
  given another access token.
\<close>

lemma demo_refresh:
  "refreshTokenService demo_libs demo_env demo_db ''rs:7d:a@x.com'' =
     Inr \<lparr>accessToken = ''as:7d:a@x.com'', refreshToken = ''rs:15m:a@x.com'',
          user = [(''id'', JsNumber 1), (''email'', JsString ''a@x.com''),
                  (''first_name'', JsString ''A''), (''last_name'', JsString ''B''),
                  (''date_of_birth'', JsString ''2000-01-01''), (''photo_url'', JsNull),
                  (''role'', JsString ''admin'')]\<rparr>"
  by (simp add: refreshTokenService_def refresh_try_def demo_libs_def demo_env_def demo_db_def
      alice_def select_by_id_def or_else_def js_of_column_def)

theorem refresh_tokens_swapped_witness:
  "refreshTokenService demo_libs demo_env demo_db ''rs:7d:a@x.com'' =
     Inr \<lparr>accessToken = ''as:7d:a@x.com'', refreshToken = ''rs:15m:a@x.com'',
          user = [(''id'', JsNumber 1), (''email'', JsString ''a@x.com''),
                  (''first_name'', JsString ''A''), (''last_name'', JsString ''B''),
                  (''date_of_birth'', JsString ''2000-01-01''), (''photo_url'', JsNull),
                  (''role'', JsString ''admin'')]\<rparr>
   \<and> jwt_sign demo_libs \<lparr>p_userId = 1, p_email = ''a@x.com'', p_role = Some ''admin''\<rparr>
         (JWT_SECRET_ACCESS demo_env) (JWT_EXPIRES_IN_LONG demo_env) = Inr ''as:7d:a@x.com''
   \<and> jwt_sign demo_libs \<lparr>p_userId = 1, p_email = ''a@x.com'', p_role = Some ''admin''\<rparr>
         (JWT_SECRET_ACCESS demo_env) (JWT_EXPIRES_IN_SHORT demo_env) = Inr ''as:15m:a@x.com''
   \<and> jwt_sign demo_libs \<lparr>p_userId = 1, p_email = ''a@x.com'', p_role = Some ''admin''\<rparr>
         (JWT_SECRET_REFRESH demo_env) (JWT_EXPIRES_IN_SHORT demo_env) = Inr ''rs:15m:a@x.com''
   \<and> jwt_sign demo_libs \<lparr>p_userId = 1, p_email = ''a@x.com'', p_role = Some ''admin''\<rparr>
         (JWT_SECRET_REFRESH demo_env) (JWT_EXPIRES_IN_LONG demo_env) = Inr ''rs:7d:a@x.com''"
  using refresh_tokens_swapped [OF demo_refresh] demo_refresh
  by (simp add: demo_libs_def demo_env_def)

subsection \<open>Refresh with an invalid token (C2)\<close>






subsection \<open>The role of a new user (C3)\<close>

text \<open>
  C3. A successful register call whose input omits the role should default it to "user"
  in the signed payload and in the returned user. The code passes the input's role on
  as it came: with the role omitted, both tokens are signed over a payload whose role is
  undefined, and the returned user object has no role property at all.
\<close>

theorem register_role_not_defaulted:
  assumes "registerUserService L env db inp = (Inr r, db')"
    and "in_role inp = None"
  shows "jwt_sign L \<lparr>p_userId = next_id db, p_email = in_email inp, p_role = None\<rparr>
           (JWT_SECRET_ACCESS env) (JWT_EXPIRES_IN_SHORT env) = Inr (accessToken r)
       \<and> jwt_sign L \<lparr>p_userId = next_id db, p_email = in_email inp, p_role = None\<rparr>
           (JWT_SECRET_REFRESH env) (JWT_EXPIRES_IN_LONG env) = Inr (refreshToken r)
       \<and> map fst (user r) =
           [''id'', ''email'', ''first_name'', ''last_name'', ''date_of_birth'', ''photo_url'']
       \<and> ''role'' \<notin> set (map fst (user r))"
  using assms
  by (auto simp: registerUserService_def register_try_def insert_user_def Let_def
      split: option.splits if_splits sum.splits)

lemma demo_register:
  "registerUserService demo_libs demo_env demo_db bob_input =
     (Inr \<lparr>accessToken = ''as:15m:b@x.com'', refreshToken = ''rs:7d:b@x.com'',
           user = [(''id'', JsNumber 2), (''email'', JsString ''b@x.com''),
                   (''first_name'', JsString ''B''), (''last_name'', JsString ''C''),
                   (''date_of_birth'', JsString ''2000-01-01''),
                   (''photo_url'', JsUndefined)]\<rparr>,
      \<lparr>rows = [alice,
                \<lparr>u_id = 2, u_email = ''b@x.com'', u_password = ''$2b$10$pw123456'',
                 u_first_name = ''B'', u_last_name = ''C'',
                 u_date_of_birth = Some ''2000-01-01'', u_photo_url = None,
                 u_role = Some ''user'', u_last_login = None\<rparr>],
        next_id = 3\<rparr>)"
  by (simp add: registerUserService_def register_try_def insert_user_def demo_libs_def
      demo_env_def demo_db_def alice_def bob_input_def select_by_email_def or_null_def
      js_of_optional_def)

lemma bob_no_role: "in_role bob_input = None"
  by (simp add: bob_input_def)

theorem register_role_not_defaulted_witness:
  "in_role bob_input = None
   \<and> fst (registerUserService demo_libs demo_env demo_db bob_input) =
       Inr \<lparr>accessToken = ''as:15m:b@x.com'', refreshToken = ''rs:7d:b@x.com'',
            user = [(''id'', JsNumber 2), (''email'', JsString ''b@x.com''),
                    (''first_name'', JsString ''B''), (''last_name'', JsString ''C''),
                    (''date_of_birth'', JsString ''2000-01-01''),
                    (''photo_url'', JsUndefined)]\<rparr>
   \<and> jwt_sign demo_libs \<lparr>p_userId = 2, p_email = ''b@x.com'', p_role = None\<rparr>
         (JWT_SECRET_ACCESS demo_env) (JWT_EXPIRES_IN_SHORT demo_env) = Inr ''as:15m:b@x.com''
   \<and> map_of [(''id'', JsNumber 2), (''email'', JsString ''b@x.com''),
              (''first_name'', JsString ''B''), (''last_name'', JsString ''C''),
              (''date_of_birth'', JsString ''2000-01-01''),
              (''photo_url'', JsUndefined)] ''role'' = None"
  using register_role_not_defaulted [OF demo_register bob_no_role] demo_register bob_no_role
  by (simp add: demo_db_def bob_input_def)

subsection \<open>Failed logins look alike (C4)\<close>

text \<open>
  C4. A login whose email matches no row and a login whose password does not match the
  stored hash throw the same error, \<^verbatim>\<open>AppError("Login Failed", 404)\<close>; no result, hence
  no token, is returned, and the store is left as it was.
\<close>

theorem login_failure_indistinguishable:
  assumes "first_row (select_by_email db email) = None
           \<or> (\<exists>usr. first_row (select_by_email db email) = Some usr
                    \<and> \<not> bcrypt_compare L password (u_password usr))"
  shows "loginUserService L env now db email password =
           (Inl (ThrownAppError \<lparr>message = ''Login Failed'', statusCode = 404\<rparr>), db)"
  using assms
  by (auto simp: loginUserService_def login_try_def login_catch_def)

lemma demo_unknown_email: "first_row (select_by_email demo_db ''nobody@x.com'') = None"
  by (simp add: select_by_email_def demo_db_def alice_def)

lemma demo_wrong_password:
  "first_row (select_by_email demo_db ''a@x.com'') = Some alice
   \<and> \<not> bcrypt_compare demo_libs ''wrong'' (u_password alice)"
  by (simp add: select_by_email_def demo_db_def alice_def demo_libs_def)

theorem login_failure_indistinguishable_witness:
  "first_row (select_by_email demo_db ''nobody@x.com'') = None
   \<and> first_row (select_by_email demo_db ''a@x.com'') = Some alice
   \<and> \<not> bcrypt_compare demo_libs ''wrong'' (u_password alice)
   \<and> loginUserService demo_libs demo_env 99 demo_db ''nobody@x.com'' ''pw123456'' =
       (Inl (ThrownAppError \<lparr>message = ''Login Failed'', statusCode = 404\<rparr>), demo_db)
   \<and> loginUserService demo_libs demo_env 99 demo_db ''a@x.com'' ''wrong'' =
       (Inl (ThrownAppError \<lparr>message = ''Login Failed'', statusCode = 404\<rparr>), demo_db)"
  using login_failure_indistinguishable
          [of demo_db "''nobody@x.com''" demo_libs "''pw123456''" demo_env 99]
        login_failure_indistinguishable
          [of demo_db "''a@x.com''" demo_libs "''wrong''" demo_env 99]
        demo_unknown_email demo_wrong_password
  by simp

subsection \<open>Registering an email twice (C5)\<close>

text \<open>
  With no two rows sharing an email, a query by email returns at most one row. Both
  operations that write keep the emails distinct.
\<close>

lemma filter_email_distinct:
  "distinct (map u_email xs) \<Longrightarrow> length (filter (\<lambda>u. u_email u = e) xs) \<le> 1"
  by (induction xs) (auto simp: filter_empty_conv image_iff)

lemma select_by_email_unique:
  "emails_unique db \<Longrightarrow> length (select_by_email db e) \<le> 1"
  using filter_email_distinct [of "rows db" e]
  by (simp add: emails_unique_def select_by_email_def)

lemma select_by_email_one:
  "emails_unique db \<Longrightarrow> select_by_email db e \<noteq> [] \<Longrightarrow> length (select_by_email db e) = 1"
  using select_by_email_unique [of db e]
  by (cases "select_by_email db e") auto

lemma register_preserves_emails_unique:
  "emails_unique db \<Longrightarrow> emails_unique (snd (registerUserService L env db inp))"
  by (auto simp: registerUserService_def register_try_def insert_user_def Let_def
      emails_unique_def select_by_email_def filter_empty_conv
      split: sum.splits)

lemma login_preserves_emails_unique:
  "emails_unique db \<Longrightarrow> emails_unique (snd (loginUserService L env now db email password))"
proof -
  have m: "u_email \<circ> (\<lambda>u. if u_id u = i then u\<lparr>u_last_login := Some now\<rparr> else u) = u_email"
    for i
    by (auto simp: fun_eq_iff)
  show "emails_unique db \<Longrightarrow> ?thesis"
    by (auto simp: loginUserService_def login_try_def Let_def emails_unique_def
        update_last_login_def m split: option.splits sum.splits)
qed

text \<open>
  C5. When the email of a register call is already in the store, the call fails with
  \<^verbatim>\<open>AppError("Email already registered", 409)\<close>, the store is returned unchanged (no
  row is inserted), and it holds exactly one row for that email.
\<close>

theorem register_duplicate_conflict:
  assumes "emails_unique db"
    and "select_by_email db (in_email inp) \<noteq> []"
  shows "registerUserService L env db inp =
           (Inl (ThrownAppError \<lparr>message = ''Email already registered'', statusCode = 409\<rparr>), db)
       \<and> length (select_by_email (snd (registerUserService L env db inp)) (in_email inp)) = 1"
proof -
  have run: "registerUserService L env db inp =
           (Inl (ThrownAppError \<lparr>message = ''Email already registered'', statusCode = 409\<rparr>), db)"
    using assms(2) by (simp add: registerUserService_def register_try_def register_catch_def)
  have "length (select_by_email db (in_email inp)) = 1"
    using assms by (rule select_by_email_one)
  with run show ?thesis by simp
qed

lemma demo_db_unique: "emails_unique demo_db"
  by (simp add: emails_unique_def demo_db_def)

lemma demo_alice_exists:
  "select_by_email demo_db (in_email (bob_input\<lparr>in_email := ''a@x.com''\<rparr>)) \<noteq> []"
  by (simp add: select_by_email_def demo_db_def alice_def)

theorem register_duplicate_conflict_witness:
  "emails_unique demo_db
   \<and> select_by_email demo_db ''a@x.com'' = [alice]
   \<and> registerUserService demo_libs demo_env demo_db (bob_input\<lparr>in_email := ''a@x.com''\<rparr>) =
       (Inl (ThrownAppError \<lparr>message = ''Email already registered'', statusCode = 409\<rparr>), demo_db)"
  using register_duplicate_conflict [OF demo_db_unique demo_alice_exists, of demo_libs demo_env]
    demo_db_unique
  by (simp add: select_by_email_def demo_db_def alice_def)

text \<open>
  The same after a first registration that succeeded: the second attempt with that
  email is the conflict, and one row is kept.
\<close>

lemma register_twice:
  assumes "emails_unique db"
    and "registerUserService L env db inp = (Inr r, db1)"
    and "in_email inp2 = in_email inp"
  shows "registerUserService L env db1 inp2 =
           (Inl (ThrownAppError \<lparr>message = ''Email already registered'', statusCode = 409\<rparr>), db1)
       \<and> length (select_by_email db1 (in_email inp)) = 1"
proof -
  have u: "emails_unique db1"
    using register_preserves_emails_unique [OF assms(1), of L env inp] assms(2) by simp
  have "select_by_email db1 (in_email inp) \<noteq> []"
    using assms(2)
    by (auto simp: registerUserService_def register_try_def insert_user_def Let_def
        select_by_email_def split: sum.splits if_splits)
  then have ne: "select_by_email db1 (in_email inp2) \<noteq> []"
    using assms(3) by simp
  have run: "registerUserService L env db1 inp2 =
           (Inl (ThrownAppError \<lparr>message = ''Email already registered'', statusCode = 409\<rparr>), db1)"
    using ne by (simp add: registerUserService_def register_try_def register_catch_def)
  have "length (select_by_email db1 (in_email inp)) = 1"
    using u ne assms(3) by (simp add: select_by_email_one)
  with run show ?thesis by simp
qed

subsection \<open>The \<^verbatim>\<open>catch\<close> blocks (C6)\<close>

text \<open>
  C6. Whatever the body of login, register or refresh throws: an \<^verbatim>\<open>AppError\<close> reaches
  the caller unchanged, with its status code and message; anything else reaches the
  caller as an \<^verbatim>\<open>AppError\<close> with status 500 and a fixed message, in which nothing of the
  original error appears.
\<close>

theorem errors_classified_or_generic:
  "(fst (login_try L env now db email password) = Inl err1 \<longrightarrow>
      fst (loginUserService L env now db email password) =
        Inl (case err1 of
               ThrownAppError a \<Rightarrow> ThrownAppError a
             | ThrownError x \<Rightarrow>
                 ThrownAppError \<lparr>message = ''Failed to log in user'', statusCode = 500\<rparr>))
   \<and> (fst (register_try L env db inp) = Inl err2 \<longrightarrow>
      fst (registerUserService L env db inp) =
        Inl (case err2 of
               ThrownAppError a \<Rightarrow> ThrownAppError a
             | ThrownError x \<Rightarrow>
                 ThrownAppError \<lparr>message = ''Failed to register user'', statusCode = 500\<rparr>))
   \<and> (refresh_try L env db token = Inl err3 \<longrightarrow>
      refreshTokenService L env db token =
        Inl (case err3 of
               ThrownAppError a \<Rightarrow> ThrownAppError a
             | ThrownError x \<Rightarrow>
                 ThrownAppError \<lparr>message = ''Failed to refresh token'', statusCode = 500\<rparr>))"
  proof (intro conjI impI)
  assume "fst (login_try L env now db email password) = Inl err1"
  then show "fst (loginUserService L env now db email password) =
        Inl (case err1 of
               ThrownAppError a \<Rightarrow> ThrownAppError a
             | ThrownError x \<Rightarrow>
                 ThrownAppError \<lparr>message = ''Failed to log in user'', statusCode = 500\<rparr>)"
    by (cases "login_try L env now db email password"; cases err1)
       (simp_all add: loginUserService_def login_catch_def)
next
  assume "fst (register_try L env db inp) = Inl err2"
  then show "fst (registerUserService L env db inp) =
        Inl (case err2 of
               ThrownAppError a \<Rightarrow> ThrownAppError a
             | ThrownError x \<Rightarrow>
                 ThrownAppError \<lparr>message = ''Failed to register user'', statusCode = 500\<rparr>)"
    by (cases "register_try L env db inp"; cases err2)
       (simp_all add: registerUserService_def register_catch_def)
next
  assume "refresh_try L env db token = Inl err3"
  then show "refreshTokenService L env db token =
        Inl (case err3 of
               ThrownAppError a \<Rightarrow> ThrownAppError a
             | ThrownError x \<Rightarrow>
                 ThrownAppError \<lparr>message = ''Failed to refresh token'', statusCode = 500\<rparr>)"
    by (cases err3) (simp_all add: refreshTokenService_def refresh_catch_def)
qed

lemma demo_login_try_no_secret:
  "fst (login_try demo_libs (demo_env\<lparr>JWT_SECRET_ACCESS := None\<rparr>) 99 demo_db ''a@x.com'' ''pw123456'')
     = Inl (ThrownError (''Error'', ''JWT_SECRET_ACCESS is not defined''))"
  by (simp add: login_try_def demo_libs_def demo_env_def demo_db_def alice_def
      select_by_email_def truthy_def Let_def)

lemma demo_register_try_duplicate:
  "fst (register_try demo_libs demo_env demo_db (bob_input\<lparr>in_email := ''a@x.com''\<rparr>))
     = Inl (ThrownAppError \<lparr>message = ''Email already registered'', statusCode = 409\<rparr>)"
  by (simp add: register_try_def demo_db_def alice_def select_by_email_def)

lemma demo_refresh_try_tampered:
  "refresh_try demo_libs demo_env demo_db ''rs:7d:a@x.comX''
     = Inl (ThrownError (''JsonWebTokenError'', ''invalid signature''))"
  by (simp add: refresh_try_def demo_libs_def demo_env_def)

theorem errors_classified_or_generic_witness:
  "fst (login_try demo_libs (demo_env\<lparr>JWT_SECRET_ACCESS := None\<rparr>) 99 demo_db ''a@x.com'' ''pw123456'')
     = Inl (ThrownError (''Error'', ''JWT_SECRET_ACCESS is not defined''))
   \<and> fst (loginUserService demo_libs (demo_env\<lparr>JWT_SECRET_ACCESS := None\<rparr>) 99 demo_db ''a@x.com'' ''pw123456'')
     = Inl (ThrownAppError \<lparr>message = ''Failed to log in user'', statusCode = 500\<rparr>)
   \<and> fst (register_try demo_libs demo_env demo_db (bob_input\<lparr>in_email := ''a@x.com''\<rparr>))
     = Inl (ThrownAppError \<lparr>message = ''Email already registered'', statusCode = 409\<rparr>)
   \<and> fst (registerUserService demo_libs demo_env demo_db (bob_input\<lparr>in_email := ''a@x.com''\<rparr>))
     = Inl (ThrownAppError \<lparr>message = ''Email already registered'', statusCode = 409\<rparr>)
   \<and> refresh_try demo_libs demo_env demo_db ''rs:7d:a@x.comX''
     = Inl (ThrownError (''JsonWebTokenError'', ''invalid signature''))
   \<and> refreshTokenService demo_libs demo_env demo_db ''rs:7d:a@x.comX''
     = Inl (ThrownAppError \<lparr>message = ''Failed to refresh token'', statusCode = 500\<rparr>)"
  using errors_classified_or_generic
      [of demo_libs "demo_env\<lparr>JWT_SECRET_ACCESS := None\<rparr>" 99 demo_db "''a@x.com''" "''pw123456''"
          "ThrownError (''Error'', ''JWT_SECRET_ACCESS is not defined'')"]
    errors_classified_or_generic
      [of demo_libs demo_env _ demo_db _ _ _ "bob_input\<lparr>in_email := ''a@x.com''\<rparr>"
          "ThrownAppError \<lparr>message = ''Email already registered'', statusCode = 409\<rparr>"
          "''rs:7d:a@x.comX''"
          "ThrownError (''JsonWebTokenError'', ''invalid signature'')"]
    demo_login_try_no_secret demo_register_try_duplicate demo_refresh_try_tampered
  by simp

subsection \<open>The stored password (C7)\<close>

text \<open>
  C7. After a successful registration the table has one new row, the only one with that
  email, and its password column holds \<open>bcrypt_hash\<close> of the plaintext at cost 10. For
  a hasher that verifies its own output and does not return its input, the stored value
  verifies against the plaintext and differs from it.
\<close>

theorem register_stores_hash:
  assumes "registerUserService L env db inp = (Inr r, db')"
    and "bcrypt_compare L (in_password inp) (bcrypt_hash L (in_password inp) 10)"
    and "bcrypt_hash L (in_password inp) 10 \<noteq> in_password inp"
  shows "\<exists>row. rows db' = rows db @ [row]
           \<and> select_by_email db' (in_email inp) = [row]
           \<and> u_password row = bcrypt_hash L (in_password inp) 10
           \<and> bcrypt_compare L (in_password inp) (u_password row)
           \<and> u_password row \<noteq> in_password inp"
  using assms
  by (auto simp: registerUserService_def register_try_def insert_user_def Let_def
      select_by_email_def filter_empty_conv
      split: option.splits if_splits sum.splits)

lemma demo_hasher:
  "bcrypt_compare demo_libs (in_password bob_input) (bcrypt_hash demo_libs (in_password bob_input) 10)
   \<and> bcrypt_hash demo_libs (in_password bob_input) 10 \<noteq> in_password bob_input"
  by (simp add: demo_libs_def bob_input_def)

theorem register_stores_hash_witness:
  "bcrypt_compare demo_libs ''pw123456'' (bcrypt_hash demo_libs ''pw123456'' 10)
   \<and> bcrypt_hash demo_libs ''pw123456'' 10 = ''$2b$10$pw123456''
   \<and> rows (snd (registerUserService demo_libs demo_env demo_db bob_input)) =
       [alice,
        \<lparr>u_id = 2, u_email = ''b@x.com'', u_password = ''$2b$10$pw123456'',
         u_first_name = ''B'', u_last_name = ''C'',
         u_date_of_birth = Some ''2000-01-01'', u_photo_url = None,
         u_role = Some ''user'', u_last_login = None\<rparr>]"
  using register_stores_hash
      [OF demo_register conjunct1 [OF demo_hasher] conjunct2 [OF demo_hasher]]
    demo_register demo_hasher
  by (simp add: bob_input_def)

subsection \<open>The returned user (C8)\<close>

text \<open>
  C8. The user object in the value of a successful login, register or refresh has exactly
  the properties written in the object literal, and none of them is named password.
\<close>

theorem user_projection_has_no_password:
  "(loginUserService L env now db email password = (Inr r1, db1) \<longrightarrow>
      map fst (user r1) =
        [''id'', ''email'', ''first_name'', ''last_name'', ''date_of_birth'', ''photo_url'', ''role'']
      \<and> ''password'' \<notin> set (map fst (user r1)))
   \<and> (registerUserService L env db inp = (Inr r2, db2) \<longrightarrow>
      map fst (user r2) =
        [''id'', ''email'', ''first_name'', ''last_name'', ''date_of_birth'', ''photo_url'']
      \<and> ''password'' \<notin> set (map fst (user r2)))
   \<and> (refreshTokenService L env db token = Inr r3 \<longrightarrow>
      map fst (user r3) =
        [''id'', ''email'', ''first_name'', ''last_name'', ''date_of_birth'', ''photo_url'', ''role'']
      \<and> ''password'' \<notin> set (map fst (user r3)))"
proof (intro conjI impI)
  assume a: "loginUserService L env now db email password = (Inr r1, db1)"
  then show k1: "map fst (user r1) =
        [''id'', ''email'', ''first_name'', ''last_name'', ''date_of_birth'', ''photo_url'', ''role'']"
    by (auto simp: loginUserService_def login_try_def Let_def
        split: option.splits if_splits sum.splits)
  then show "''password'' \<notin> set (map fst (user r1))" by simp
next
  assume a: "registerUserService L env db inp = (Inr r2, db2)"
  then show k2: "map fst (user r2) =
        [''id'', ''email'', ''first_name'', ''last_name'', ''date_of_birth'', ''photo_url'']"
    by (auto simp: registerUserService_def register_try_def insert_user_def Let_def
        split: option.splits if_splits sum.splits)
  then show "''password'' \<notin> set (map fst (user r2))" by simp
next
  assume a: "refreshTokenService L env db token = Inr r3"
  then show k3: "map fst (user r3) =
        [''id'', ''email'', ''first_name'', ''last_name'', ''date_of_birth'', ''photo_url'', ''role'']"
    by (auto simp: refreshTokenService_def refresh_try_def Let_def
        split: option.splits if_splits sum.splits)
  then show "''password'' \<notin> set (map fst (user r3))" by simp
qed

lemma demo_login:
  "loginUserService demo_libs demo_env 99 demo_db ''a@x.com'' ''pw123456'' =
     (Inr \<lparr>accessToken = ''as:15m:a@x.com'', refreshToken = ''rs:7d:a@x.com'',
           user = [(''id'', JsNumber 1), (''email'', JsString ''a@x.com''),
                   (''first_name'', JsString ''A''), (''last_name'', JsString ''B''),
                   (''date_of_birth'', JsString ''2000-01-01''), (''photo_url'', JsNull),
                   (''role'', JsString ''admin'')]\<rparr>,
      \<lparr>rows = [alice\<lparr>u_last_login := Some 99\<rparr>], next_id = 2\<rparr>)"
  by (simp add: loginUserService_def login_try_def demo_libs_def demo_env_def demo_db_def
      alice_def select_by_email_def update_last_login_def truthy_def or_else_def
      js_of_column_def Let_def)

theorem user_projection_has_no_password_witness:
  "map_of (user (projr (fst (loginUserService demo_libs demo_env 99 demo_db ''a@x.com'' ''pw123456''))))
      ''password'' = None
   \<and> map_of (user (projr (fst (registerUserService demo_libs demo_env demo_db bob_input))))
      ''password'' = None
   \<and> map_of (user (projr (refreshTokenService demo_libs demo_env demo_db ''rs:7d:a@x.com'')))
      ''password'' = None"
  using user_projection_has_no_password
      [of demo_libs demo_env 99 demo_db "''a@x.com''" "''pw123456''" _ _ bob_input _ _
          "''rs:7d:a@x.com''"]
    demo_login demo_register demo_refresh
  by simp

subsection \<open>What login writes (C9)\<close>

text \<open>
  C9, as amended. Login changes nothing but \<open>last_login\<close>, and only on the rows whose
  id is that of the matched user: the id sequence and every other column of every row
  are as before. The write happens exactly when the credentials are valid (the email
  matches a row and the password matches its hash). A login refused with the 404 leaves
  the store unchanged, and every login that returns has written; a login with valid
  credentials that fails afterwards, while the tokens are issued, has written as well.
\<close>

theorem login_store_effect:
  assumes "loginUserService L env now db email password = (res, db')"
  shows "(case first_row (select_by_email db email) of
            None \<Rightarrow> db' = db \<and> status_of res = Some 404
          | Some usr \<Rightarrow>
              if bcrypt_compare L password (u_password usr)
              then db' = update_last_login db (u_id usr) now \<and> status_of res \<noteq> Some 404
              else db' = db \<and> status_of res = Some 404)
       \<and> next_id db' = next_id db
       \<and> map (\<lambda>u. u\<lparr>u_last_login := None\<rparr>) (rows db') = map (\<lambda>u. u\<lparr>u_last_login := None\<rparr>) (rows db)"
proof -
  have frame: "map ((\<lambda>u. u\<lparr>u_last_login := None\<rparr>) \<circ> (\<lambda>u. if u_id u = i then u\<lparr>u_last_login := Some now\<rparr> else u)) xs
      = map (\<lambda>u. u\<lparr>u_last_login := None\<rparr>) xs" for i and xs :: "User list"
    by (induction xs) auto
  show ?thesis
    using assms
    by (auto simp: loginUserService_def login_try_def login_catch_def Let_def
        update_last_login_def frame
        split: option.splits if_splits sum.splits)
qed

theorem login_store_effect_witness:
  "loginUserService demo_libs demo_env 99 demo_db ''a@x.com'' ''pw123456'' =
     (Inr \<lparr>accessToken = ''as:15m:a@x.com'', refreshToken = ''rs:7d:a@x.com'',
           user = [(''id'', JsNumber 1), (''email'', JsString ''a@x.com''),
                   (''first_name'', JsString ''A''), (''last_name'', JsString ''B''),
                   (''date_of_birth'', JsString ''2000-01-01''), (''photo_url'', JsNull),
                   (''role'', JsString ''admin'')]\<rparr>,
      \<lparr>rows = [alice\<lparr>u_last_login := Some 99\<rparr>], next_id = 2\<rparr>)
   \<and> update_last_login demo_db 1 99 = \<lparr>rows = [alice\<lparr>u_last_login := Some 99\<rparr>], next_id = 2\<rparr>"
  using login_store_effect [OF demo_login] demo_login
  by (simp add: demo_db_def alice_def select_by_email_def demo_libs_def)

text \<open>
  C9 as stated says that a login that throws leaves the store unchanged. With
  \<open>JWT_SECRET_ACCESS\<close> undefined, a login with the right password throws (status 500)
  after the \<^verbatim>\<open>UPDATE\<close> has run: \<open>last_login\<close> of the user is set.
\<close>

theorem login_failure_changes_store:
  "status_of (fst (loginUserService demo_libs (demo_env\<lparr>JWT_SECRET_ACCESS := None\<rparr>) 99 demo_db
                    ''a@x.com'' ''pw123456'')) = Some 500
   \<and> snd (loginUserService demo_libs (demo_env\<lparr>JWT_SECRET_ACCESS := None\<rparr>) 99 demo_db
            ''a@x.com'' ''pw123456'')
       = \<lparr>rows = [alice\<lparr>u_last_login := Some 99\<rparr>], next_id = 2\<rparr>
   \<and> snd (loginUserService demo_libs (demo_env\<lparr>JWT_SECRET_ACCESS := None\<rparr>) 99 demo_db
            ''a@x.com'' ''pw123456'') \<noteq> demo_db"
  by (simp add: loginUserService_def login_try_def login_catch_def demo_libs_def demo_env_def
      demo_db_def alice_def select_by_email_def update_last_login_def truthy_def Let_def)

end
